theory Spec2Isabelle
  imports Main "HOL-Library.Sublist"
begin

section \<open>Currency pairs: a model of package pair\<close>

text \<open>
  Go strings are byte sequences; \<open>len\<close>, slicing and \<open>strings.Index\<close> count bytes.
  A Go string is modelled as a \<open>string\<close> (a list of 8-bit characters).

  The Go functions return a plain \<open>CurrencyPair\<close> and have no error result. Where the
  source indexes or slices out of range the Go run time panics, and the panic unwinds
  into the caller. The model makes that a value: \<open>Inl\<close> of the panic, \<open>Inr\<close> of the
  returned pair.
\<close>

datatype panic = IndexOutOfRange | SliceBoundsOutOfRange

subsection \<open>Go primitives used by the package\<close>

text \<open>\<open>xs[i]\<close> on a slice: a run-time panic when \<open>i\<close> is not below \<open>len(xs)\<close>.\<close>

definition index_at :: "'a list \<Rightarrow> nat \<Rightarrow> panic + 'a" where
  "index_at xs i = (if i < length xs then Inr (xs ! i) else Inl IndexOutOfRange)"

text \<open>
  \<open>s[lo:hi]\<close> and \<open>s[lo:]\<close> on a string, with \<open>int\<close> bounds as in Go: a run-time panic
  unless \<open>0 \<le> lo \<le> hi \<le> len(s)\<close>.
\<close>

definition slice :: "string \<Rightarrow> int \<Rightarrow> int \<Rightarrow> panic + string" where
  "slice s lo hi =
     (if 0 \<le> lo \<and> lo \<le> hi \<and> hi \<le> int (length s)
      then Inr (take (nat (hi - lo)) (drop (nat lo) s))
      else Inl SliceBoundsOutOfRange)"

definition slice_from :: "string \<Rightarrow> int \<Rightarrow> panic + string" where
  "slice_from s lo = slice s lo (int (length s))"

text \<open>
  \<open>strings.Index(s, substr)\<close>: the byte index of the first instance of \<open>substr\<close> in
  \<open>s\<close>, or \<open>-1\<close> when there is none. The empty string is found at index 0.
\<close>

fun strings_Index :: "string \<Rightarrow> string \<Rightarrow> int" where
  "strings_Index [] substr = (if substr = [] then 0 else - 1)"
| "strings_Index (c # cs) substr =
     (if prefix substr (c # cs) then 0
      else (let r = strings_Index cs substr in if r < 0 then - 1 else r + 1))"

text \<open>\<open>strings.Contains(s, substr)\<close> is \<open>Index(s, substr) >= 0\<close> in the Go library.\<close>

definition strings_Contains :: "string \<Rightarrow> string \<Rightarrow> bool" where
  "strings_Contains s substr = (0 \<le> strings_Index s substr)"

text \<open>
  \<open>strings.Split(s, sep)\<close>. For a non-empty separator the library cuts at each
  occurrence in turn, from the left, occurrences not overlapping: the text before the
  first occurrence, then the split of what follows it; a string without the separator
  is returned whole, as a single element. For the empty separator the string is cut
  after each character (each byte here: exact for ASCII text, where Go cuts after each
  UTF-8 sequence); every theorem below has a non-empty separator.
\<close>

function strings_Split :: "string \<Rightarrow> string \<Rightarrow> string list" where
  "strings_Split s sep =
     (if sep = [] then map (\<lambda>c. [c]) s
      else (let m = strings_Index s sep in
            if m < 0 then [s]
            else take (nat m) s # strings_Split (drop (nat m + length sep) s) sep))"
  by pat_completeness auto

text \<open>
  \<open>strings.ToUpper\<close> on the bytes of ASCII text: the letters \<open>a\<close> to \<open>z\<close> (97 to 122)
  move to \<open>A\<close> to \<open>Z\<close>, every other byte stays.
  Go's function also upper-cases the letters beyond ASCII and rewrites invalid UTF-8, so
  the model agrees with it on ASCII text only; no theorem below depends on what
  upper-casing computes.
\<close>

definition upper_byte :: "char \<Rightarrow> char" where
  "upper_byte c =
     (let n = (of_char c :: nat) in if 97 \<le> n \<and> n \<le> 122 then char_of (n - 32) else c)"

definition strings_ToUpper :: "string \<Rightarrow> string" where
  "strings_ToUpper s = map upper_byte s"

text \<open>
  Modelled from the spec: \<open>common.StringToUpper\<close> of package common, which is not among
  the sources; the specification describes it as the upstream upper-casing string helper,
  so it is the library's upper-casing.
\<close>

definition common_StringToUpper :: "string \<Rightarrow> string" where
  "common_StringToUpper s = strings_ToUpper s"

subsection \<open>CurrencyItem and CurrencyPair\<close>

type_synonym CurrencyItem = string

definition Upper :: "CurrencyItem \<Rightarrow> CurrencyItem" where
  "Upper c = strings_ToUpper c"

definition String :: "CurrencyItem \<Rightarrow> string" where
  "String c = c"

record CurrencyPair =
  Delimiter :: string
  FirstCurrency :: CurrencyItem
  SecondCurrency :: CurrencyItem

text \<open>The zero value \<open>CurrencyPair{}\<close>: every field the empty string.\<close>

definition zero_CurrencyPair :: CurrencyPair where
  "zero_CurrencyPair = \<lparr>Delimiter = [], FirstCurrency = [], SecondCurrency = []\<rparr>"

definition Equal :: "CurrencyPair \<Rightarrow> CurrencyPair \<Rightarrow> bool \<Rightarrow> bool" where
  "Equal c p exact =
     (if \<not> exact then
        (if Upper (FirstCurrency c) = Upper (FirstCurrency p) \<and>
            Upper (SecondCurrency c) = Upper (SecondCurrency p) \<or>
            Upper (FirstCurrency c) = Upper (SecondCurrency p) \<and>
            Upper (SecondCurrency c) = Upper (FirstCurrency p)
         then True else False)
      else
        (if Upper (FirstCurrency c) = Upper (FirstCurrency p) \<and>
            Upper (SecondCurrency c) = Upper (SecondCurrency p)
         then True else False))"

definition Swap :: "CurrencyPair \<Rightarrow> CurrencyPair" where
  "Swap c = (let p = c;
                 p = p\<lparr>FirstCurrency := SecondCurrency c\<rparr>;
                 p = p\<lparr>SecondCurrency := FirstCurrency c\<rparr>
             in p)"

subsection \<open>Constructors\<close>

definition NewCurrencyPairDelimiter :: "string \<Rightarrow> string \<Rightarrow> panic + CurrencyPair" where
  "NewCurrencyPairDelimiter currency delimiter =
     (let result = strings_Split currency delimiter in
      case index_at result 0 of
        Inl e \<Rightarrow> Inl e
      | Inr r0 \<Rightarrow>
          (case index_at result 1 of
             Inl e \<Rightarrow> Inl e
           | Inr r1 \<Rightarrow>
               Inr \<lparr>Delimiter = delimiter, FirstCurrency = r0, SecondCurrency = r1\<rparr>))"

definition NewCurrencyPair :: "string \<Rightarrow> string \<Rightarrow> CurrencyPair" where
  "NewCurrencyPair firstCurrency secondCurrency =
     \<lparr>Delimiter = [], FirstCurrency = firstCurrency, SecondCurrency = secondCurrency\<rparr>"

text \<open>
  The arguments of a Go call are evaluated from left to right, so the first slice
  expression that is out of range is the one that panics.
\<close>

definition NewCurrencyPairFromIndex :: "string \<Rightarrow> string \<Rightarrow> panic + CurrencyPair" where
  "NewCurrencyPairFromIndex currency index =
     (let i = strings_Index currency index in
      if i = 0 then
        (case slice currency 0 (int (length index)) of
           Inl e \<Rightarrow> Inl e
         | Inr a \<Rightarrow>
             (case slice_from currency (int (length index)) of
                Inl e \<Rightarrow> Inl e
              | Inr b \<Rightarrow> Inr (NewCurrencyPair a b)))
      else
        (case slice currency 0 i of
           Inl e \<Rightarrow> Inl e
         | Inr a \<Rightarrow>
             (case slice_from currency i of
                Inl e \<Rightarrow> Inl e
              | Inr b \<Rightarrow> Inr (NewCurrencyPair a b))))"

text \<open>
  The loop of \<open>NewCurrencyPairFromString\<close> over its delimiters, in order; the code after
  the loop is the case of no delimiter left.
\<close>

fun NewCurrencyPairFromString_loop :: "string \<Rightarrow> string list \<Rightarrow> panic + CurrencyPair" where
  "NewCurrencyPairFromString_loop currency [] =
     (case slice currency 0 3 of
        Inl e \<Rightarrow> Inl e
      | Inr a \<Rightarrow>
          (case slice_from currency 3 of
             Inl e \<Rightarrow> Inl e
           | Inr b \<Rightarrow> Inr (NewCurrencyPair a b)))"
| "NewCurrencyPairFromString_loop currency (x # delimiters) =
     (if strings_Contains currency x then NewCurrencyPairDelimiter currency x
      else NewCurrencyPairFromString_loop currency delimiters)"

definition NewCurrencyPairFromString :: "string \<Rightarrow> panic + CurrencyPair" where
  "NewCurrencyPairFromString currency =
     NewCurrencyPairFromString_loop currency [''_'', ''-'']"

subsection \<open>What a caller observes\<close>

text \<open>
  The constructors have the single result type \<open>CurrencyPair\<close>: a call returns a pair
  or ends in a run-time panic. The package declares no error type and no function of it
  has an error result, so an error value reported to the caller would be a third
  outcome, one that the code never has. \<open>spec_error\<close> is the error of the
  specification's taxonomy, kept apart from the panics of the code.
\<close>

datatype spec_error = MalformedPairError

datatype outcome = Returned CurrencyPair | Reported spec_error | Panicked panic

definition outcome_of :: "panic + CurrencyPair \<Rightarrow> outcome" where
  "outcome_of r = (case r of Inl e \<Rightarrow> Panicked e | Inr p \<Rightarrow> Returned p)"

subsection \<open>Lists of pairs\<close>

definition ContainsCurrency :: "CurrencyPair \<Rightarrow> string \<Rightarrow> bool" where
  "ContainsCurrency p c =
     (String (Upper (FirstCurrency p)) = common_StringToUpper c \<or>
      String (Upper (SecondCurrency p)) = common_StringToUpper c)"

text \<open>
  The loop of \<open>RemovePairsByFilter\<close>: the elements of \<open>p\<close> still to visit, and the
  slice \<open>pairs\<close> built so far by \<open>append\<close>.
\<close>

fun RemovePairsByFilter_loop ::
  "CurrencyPair list \<Rightarrow> string \<Rightarrow> CurrencyPair list \<Rightarrow> CurrencyPair list" where
  "RemovePairsByFilter_loop [] filter' pairs = pairs"
| "RemovePairsByFilter_loop (px # rest) filter' pairs =
     (if ContainsCurrency px filter' then RemovePairsByFilter_loop rest filter' pairs
      else RemovePairsByFilter_loop rest filter' (pairs @ [px]))"

definition RemovePairsByFilter :: "CurrencyPair list \<Rightarrow> string \<Rightarrow> CurrencyPair list" where
  "RemovePairsByFilter p filter' = RemovePairsByFilter_loop p filter' []"

fun CopyPairFormat :: "CurrencyPair \<Rightarrow> CurrencyPair list \<Rightarrow> bool \<Rightarrow> CurrencyPair" where
  "CopyPairFormat p [] exact = zero_CurrencyPair"
| "CopyPairFormat p (px # pairs) exact =
     (if Equal p px exact then px else CopyPairFormat p pairs exact)"

section \<open>Properties of the Go primitives\<close>

text \<open>
  What \<open>strings.Index\<close> returns: \<open>-1\<close> or a position where the substring starts, with
  no earlier such position.
\<close>

lemma strings_Index_range: "- 1 \<le> strings_Index s sub \<and> strings_Index s sub \<le> int (length s)"
  by (induction s) (auto simp: Let_def)

lemma strings_Index_found:
  "0 \<le> strings_Index s sub \<Longrightarrow> prefix sub (drop (nat (strings_Index s sub)) s)"
proof (induction s)
  case Nil
  then show ?case by (simp split: if_splits)
next
  case (Cons c cs)
  show ?case
  proof (cases "prefix sub (c # cs)")
    case True
    then show ?thesis by simp
  next
    case False
    with Cons.prems have r: "0 \<le> strings_Index cs sub"
      by (simp add: Let_def split: if_splits)
    with False have "strings_Index (c # cs) sub = strings_Index cs sub + 1"
      by (simp add: Let_def)
    moreover have "nat (strings_Index cs sub + 1) = Suc (nat (strings_Index cs sub))"
      using r by simp
    ultimately show ?thesis using Cons.IH [OF r] by simp
  qed
qed

lemma strings_Index_first:
  "0 \<le> strings_Index s sub \<Longrightarrow> j < nat (strings_Index s sub) \<Longrightarrow> \<not> prefix sub (drop j s)"
proof (induction s arbitrary: j)
  case Nil
  then show ?case by (simp split: if_splits)
next
  case (Cons c cs)
  show ?case
  proof (cases "prefix sub (c # cs)")
    case True
    with Cons.prems show ?thesis by simp
  next
    case False
    with Cons.prems have r: "0 \<le> strings_Index cs sub"
      by (simp add: Let_def split: if_splits)
    with False have e: "strings_Index (c # cs) sub = strings_Index cs sub + 1"
      by (simp add: Let_def)
    show ?thesis
    proof (cases j)
      case 0
      with False show ?thesis by simp
    next
      case (Suc k)
      with Cons.prems e r have "k < nat (strings_Index cs sub)" by simp
      from Cons.IH [OF r this] Suc show ?thesis by simp
    qed
  qed
qed

lemma strings_Index_none:
  "strings_Index s sub < 0 \<Longrightarrow> \<not> prefix sub (drop j s)"
proof (induction s arbitrary: j)
  case Nil
  then show ?case by (simp split: if_splits)
next
  case (Cons c cs)
  then have np: "\<not> prefix sub (c # cs)" and r: "strings_Index cs sub < 0"
    by (auto simp: Let_def split: if_splits)
  show ?case
  proof (cases j)
    case 0
    with np show ?thesis by simp
  next
    case (Suc k)
    with Cons.IH [OF r] show ?thesis by simp
  qed
qed

lemma strings_Index_fits:
  "0 \<le> strings_Index s sub \<Longrightarrow> nat (strings_Index s sub) + length sub \<le> length s"
proof -
  assume a: "0 \<le> strings_Index s sub"
  from strings_Index_found [OF a] have "length sub \<le> length (drop (nat (strings_Index s sub)) s)"
    by (rule prefix_length_le)
  moreover have "nat (strings_Index s sub) \<le> length s"
    using strings_Index_range [of s sub] a by simp
  ultimately show ?thesis by simp
qed

lemma strings_Index_eqI:
  assumes "prefix sub (drop i s)" and "i \<le> length s" and "\<And>j. j < i \<Longrightarrow> \<not> prefix sub (drop j s)"
  shows "strings_Index s sub = int i"
proof -
  have nn: "0 \<le> strings_Index s sub"
    using strings_Index_none [of s sub i] assms(1) by (meson not_le)
  let ?m = "nat (strings_Index s sub)"
  have "\<not> ?m < i" using assms(3) strings_Index_found [OF nn] by blast
  moreover have "\<not> i < ?m" using strings_Index_first [OF nn] assms(1) by blast
  ultimately have "?m = i" by simp
  with nn show ?thesis by simp
qed

text \<open>
  \<open>strings.Contains\<close> is occurrence as a substring: the hypotheses "the delimiter
  occurs in the raw string" and "does not occur" of the theorems below are stated
  with it.
\<close>

lemma strings_Contains_iff:
  "strings_Contains s sub \<longleftrightarrow> (\<exists>pre post. s = pre @ sub @ post)"
proof
  assume "strings_Contains s sub"
  then have a: "0 \<le> strings_Index s sub" by (simp add: strings_Contains_def)
  from strings_Index_found [OF a] obtain post where
    "drop (nat (strings_Index s sub)) s = sub @ post" by (auto simp: prefix_def)
  then have "s = take (nat (strings_Index s sub)) s @ sub @ post"
    by (metis append_take_drop_id)
  then show "\<exists>pre post. s = pre @ sub @ post" by blast
next
  assume "\<exists>pre post. s = pre @ sub @ post"
  then obtain pre post where s: "s = pre @ sub @ post" by blast
  then have "prefix sub (drop (length pre) s)" by simp
  then have "\<not> strings_Index s sub < 0" using strings_Index_none by blast
  then show "strings_Contains s sub" by (simp add: strings_Contains_def)
qed

text \<open>
  \<open>strings.Split\<close> terminates: after an occurrence of a non-empty separator the
  remaining string is shorter.
\<close>

termination strings_Split
proof (relation "measure (\<lambda>(s, sep). length s)")
  show "wf (measure (\<lambda>(s, sep). length s))" by simp
next
  fix s sep :: string and m :: int
  assume sep: "sep \<noteq> []" and m: "m = strings_Index s sep" and nn: "\<not> m < 0"
  from nn m have a: "0 \<le> strings_Index s sep" by simp
  from strings_Index_fits [OF a] sep have "0 < length s" by (cases s) auto
  moreover from sep have "0 < nat m + length sep" by simp
  ultimately show "((drop (nat m + length sep) s, sep), (s, sep)) \<in> measure (\<lambda>(s, sep). length s)"
    by simp
qed

declare strings_Split.simps [simp del]

lemma strings_Index_empty: "strings_Index s [] = 0"
  by (cases s) simp_all

lemma strings_Contains_nonempty: "\<not> strings_Contains s sub \<Longrightarrow> sub \<noteq> []"
  by (auto simp: strings_Contains_def strings_Index_empty)

lemma strings_Split_absent:
  "\<not> strings_Contains s sep \<Longrightarrow> strings_Split s sep = [s]"
  using strings_Contains_nonempty [of s sep]
  by (subst strings_Split.simps) (simp add: strings_Contains_def)

lemma strings_Split_present:
  "sep \<noteq> [] \<Longrightarrow> strings_Contains s sep \<Longrightarrow>
   strings_Split s sep =
     take (nat (strings_Index s sep)) s #
     strings_Split (drop (nat (strings_Index s sep) + length sep) s) sep"
  by (subst strings_Split.simps) (simp add: strings_Contains_def Let_def)

lemma strings_Split_hd:
  "sep \<noteq> [] \<Longrightarrow> \<exists>rest. strings_Split s sep =
     (if strings_Contains s sep then take (nat (strings_Index s sep)) s else s) # rest"
  by (subst strings_Split.simps) (simp add: strings_Contains_def Let_def)

section \<open>Parsing with a delimiter\<close>

text \<open>
  C1, as the specification states it, fails: it has \<open>NewCurrencyPairDelimiter\<close> report
  a MalformedPairError. For \<open>BTCUSD\<close> and the delimiter \<open>-\<close>, which does not occur,
  the call ends in the run-time panic of the unchecked \<open>result[1]\<close>; what the caller
  observes is that panic and not a reported error.
\<close>

theorem fromDelimited_absent_counterexample:
  "\<not> strings_Contains ''BTCUSD'' ''-'' \<and>
   outcome_of (NewCurrencyPairDelimiter ''BTCUSD'' ''-'') = Panicked IndexOutOfRange \<and>
   outcome_of (NewCurrencyPairDelimiter ''BTCUSD'' ''-'') \<noteq> Reported MalformedPairError"
  by code_simp

text \<open>
  C1, amended. When the delimiter does not occur in the raw string, \<open>strings.Split\<close>
  returns the raw string as its only element, so \<open>result[1]\<close> is out of range:
  \<open>NewCurrencyPairDelimiter\<close> returns no pair and reports no error value, it ends in
  the index-out-of-range panic, which unwinds into the caller at once.
\<close>

theorem fromDelimited_absent:
  "\<not> strings_Contains raw delimiter \<Longrightarrow>
   strings_Split raw delimiter = [raw] \<and>
   NewCurrencyPairDelimiter raw delimiter = Inl IndexOutOfRange \<and>
   outcome_of (NewCurrencyPairDelimiter raw delimiter) = Panicked IndexOutOfRange \<and>
   (\<forall>p. outcome_of (NewCurrencyPairDelimiter raw delimiter) \<noteq> Returned p) \<and>
   (\<forall>e. outcome_of (NewCurrencyPairDelimiter raw delimiter) \<noteq> Reported e)"
  by (simp add: NewCurrencyPairDelimiter_def strings_Split_absent index_at_def outcome_of_def)

theorem fromDelimited_absent_witness:
  "\<not> strings_Contains ''BTCUSD'' ''-'' \<and>
   strings_Split ''BTCUSD'' ''-'' = [''BTCUSD''] \<and>
   NewCurrencyPairDelimiter ''BTCUSD'' ''-'' = Inl IndexOutOfRange \<and>
   outcome_of (NewCurrencyPairDelimiter ''BTCUSD'' ''-'') = Panicked IndexOutOfRange"
proof -
  have h: "\<not> strings_Contains ''BTCUSD'' ''-''" by code_simp
  from h fromDelimited_absent [OF h] show ?thesis by blast
qed

text \<open>
  With a non-empty delimiter that occurs, \<open>strings.Split\<close> returns at least two
  elements, and \<open>NewCurrencyPairDelimiter\<close> takes the first two of them.
\<close>

lemma prefix_append_short:
  "prefix xs (ys @ zs) \<Longrightarrow> length xs \<le> length ys \<Longrightarrow> prefix xs ys"
  by (auto simp: prefix_append)

lemma strings_Index_append_right:
  assumes "strings_Index (a @ sub) sub = int (length a)"
  shows "strings_Index (a @ sub @ b) sub = int (length a)"
proof (rule strings_Index_eqI)
  show "prefix sub (drop (length a) (a @ sub @ b))" by simp
  show "length a \<le> length (a @ sub @ b)" by simp
next
  fix j assume j: "j < length a"
  have nn: "0 \<le> strings_Index (a @ sub) sub" using assms by simp
  have "\<not> prefix sub (drop j (a @ sub))"
    using strings_Index_first [OF nn, of j] assms j by simp
  then have n: "\<not> prefix sub (drop j a @ sub)" using j by simp
  show "\<not> prefix sub (drop j (a @ sub @ b))"
  proof
    assume "prefix sub (drop j (a @ sub @ b))"
    then have "prefix sub ((drop j a @ sub) @ b)" using j by simp
    then have "prefix sub (drop j a @ sub)"
      by (rule prefix_append_short) simp
    with n show False by contradiction
  qed
qed

lemma fromDelimited_present:
  assumes "delimiter \<noteq> []" and "strings_Contains raw delimiter"
  shows "NewCurrencyPairDelimiter raw delimiter =
     Inr \<lparr>Delimiter = delimiter,
          FirstCurrency = take (nat (strings_Index raw delimiter)) raw,
          SecondCurrency =
            (let rest = drop (nat (strings_Index raw delimiter) + length delimiter) raw
             in if strings_Contains rest delimiter
                then take (nat (strings_Index rest delimiter)) rest else rest)\<rparr>"
proof -
  let ?rest = "drop (nat (strings_Index raw delimiter) + length delimiter) raw"
  let ?second = "if strings_Contains ?rest delimiter
                 then take (nat (strings_Index ?rest delimiter)) ?rest else ?rest"
  from strings_Split_hd [OF assms(1), of ?rest] obtain more where
    "strings_Split ?rest delimiter = ?second # more" by blast
  with strings_Split_present [OF assms] have
    "strings_Split raw delimiter =
       take (nat (strings_Index raw delimiter)) raw # ?second # more" by simp
  then show ?thesis
    by (simp add: NewCurrencyPairDelimiter_def index_at_def Let_def)
qed


text \<open>
  C2, as the specification states it, fails twice. \<open>strings.Split\<close> cuts at every
  occurrence, so with a second occurrence of the delimiter the second currency stops
  there and is not the whole remainder: \<open>a_b_c\<close> gives \<open>a\<close> and \<open>b\<close>. And a
  delimiter that overlaps itself can start inside \<open>first\<close>: with \<open>first = a\<close>,
  \<open>delim = aa\<close>, \<open>second = b\<close> the delimiter occurs in neither leg, yet the first
  occurrence in \<open>aaab\<close> is at position 0 and the legs come back as the empty string
  and \<open>ab\<close>.
\<close>

theorem fromDelimited_remainder_counterexample:
  "''_'' \<noteq> [] \<and> strings_Contains ''a_b_c'' ''_'' \<and>
   NewCurrencyPairDelimiter ''a_b_c'' ''_'' =
     Inr \<lparr>Delimiter = ''_'', FirstCurrency = ''a'', SecondCurrency = ''b''\<rparr> \<and>
   NewCurrencyPairDelimiter ''a_b_c'' ''_'' \<noteq>
     Inr \<lparr>Delimiter = ''_'', FirstCurrency = ''a'', SecondCurrency = ''b_c''\<rparr> \<and>
   \<not> strings_Contains ''a'' ''aa'' \<and> \<not> strings_Contains ''b'' ''aa'' \<and>
   NewCurrencyPairDelimiter (''a'' @ ''aa'' @ ''b'') ''aa'' =
     Inr \<lparr>Delimiter = ''aa'', FirstCurrency = [], SecondCurrency = ''ab''\<rparr> \<and>
   NewCurrencyPairDelimiter (''a'' @ ''aa'' @ ''b'') ''aa'' \<noteq>
     Inr \<lparr>Delimiter = ''aa'', FirstCurrency = ''a'', SecondCurrency = ''b''\<rparr>"
  by code_simp

text \<open>
  C2, amended. For a non-empty delimiter that occurs in the raw string,
  \<open>NewCurrencyPairDelimiter\<close> returns a pair, the delimiter stored as given: the first
  currency is the text before the first occurrence; the second currency is the text
  after that occurrence up to the next occurrence of the delimiter in it, and the whole
  remainder when there is none. And \<open>first + delim + second\<close> gives back \<open>first\<close> and
  \<open>second\<close> when the non-empty \<open>delim\<close> does not occur in \<open>second\<close> and its first
  occurrence in \<open>first + delim\<close> is the final one, at position \<open>len(first)\<close>.
\<close>

theorem fromDelimited_splits:
  "(delimiter \<noteq> [] \<and> strings_Contains raw delimiter \<longrightarrow>
      NewCurrencyPairDelimiter raw delimiter =
        Inr \<lparr>Delimiter = delimiter,
             FirstCurrency = take (nat (strings_Index raw delimiter)) raw,
             SecondCurrency =
               (let rest = drop (nat (strings_Index raw delimiter) + length delimiter) raw
                in if strings_Contains rest delimiter
                   then take (nat (strings_Index rest delimiter)) rest else rest)\<rparr>) \<and>
   (delimiter \<noteq> [] \<and> \<not> strings_Contains second delimiter \<and>
    strings_Index (first @ delimiter) delimiter = int (length first) \<longrightarrow>
      NewCurrencyPairDelimiter (first @ delimiter @ second) delimiter =
        Inr \<lparr>Delimiter = delimiter, FirstCurrency = first, SecondCurrency = second\<rparr>)"
proof (intro conjI impI)
  assume "delimiter \<noteq> [] \<and> strings_Contains raw delimiter"
  then show "NewCurrencyPairDelimiter raw delimiter =
        Inr \<lparr>Delimiter = delimiter,
             FirstCurrency = take (nat (strings_Index raw delimiter)) raw,
             SecondCurrency =
               (let rest = drop (nat (strings_Index raw delimiter) + length delimiter) raw
                in if strings_Contains rest delimiter
                   then take (nat (strings_Index rest delimiter)) rest else rest)\<rparr>"
    by (simp add: fromDelimited_present)
next
  assume a: "delimiter \<noteq> [] \<and> \<not> strings_Contains second delimiter \<and>
    strings_Index (first @ delimiter) delimiter = int (length first)"
  then have i: "strings_Index (first @ delimiter @ second) delimiter = int (length first)"
    by (simp add: strings_Index_append_right)
  then have c: "strings_Contains (first @ delimiter @ second) delimiter"
    by (simp add: strings_Contains_def)
  from a have d: "delimiter \<noteq> []" by simp
  show "NewCurrencyPairDelimiter (first @ delimiter @ second) delimiter =
        Inr \<lparr>Delimiter = delimiter, FirstCurrency = first, SecondCurrency = second\<rparr>"
    using a by (simp add: fromDelimited_present [OF d c] i)
qed

theorem fromDelimited_splits_witness:
  "NewCurrencyPairDelimiter ''BTC-USD-PERP'' ''-'' =
     Inr \<lparr>Delimiter = ''-'', FirstCurrency = ''BTC'', SecondCurrency = ''USD''\<rparr> \<and>
   NewCurrencyPairDelimiter (''btc'' @ ''_'' @ ''usd'') ''_'' =
     Inr \<lparr>Delimiter = ''_'', FirstCurrency = ''btc'', SecondCurrency = ''usd''\<rparr>"
proof -
  have h1: "''-'' \<noteq> [] \<and> strings_Contains ''BTC-USD-PERP'' ''-''" by code_simp
  have h2: "''_'' \<noteq> [] \<and> \<not> strings_Contains ''usd'' ''_'' \<and>
    strings_Index (''btc'' @ ''_'') ''_'' = int (length ''btc'')" by code_simp
  have e1: "take (nat (strings_Index ''BTC-USD-PERP'' ''-'')) ''BTC-USD-PERP'' = ''BTC''"
    by code_simp
  have e2: "(let rest = drop (nat (strings_Index ''BTC-USD-PERP'' ''-'') + length ''-'') ''BTC-USD-PERP''
                in if strings_Contains rest ''-''
                   then take (nat (strings_Index rest ''-'')) rest else rest) = ''USD''"
    by code_simp
  from fromDelimited_splits [of "''-''" "''BTC-USD-PERP''" "''usd''" "''btc''"] h1 e1 e2
  have "NewCurrencyPairDelimiter ''BTC-USD-PERP'' ''-'' =
     Inr \<lparr>Delimiter = ''-'', FirstCurrency = ''BTC'', SecondCurrency = ''USD''\<rparr>"
    by simp
  moreover from fromDelimited_splits [of "''_''" "''BTC-USD-PERP''" "''usd''" "''btc''"] h2
  have "NewCurrencyPairDelimiter (''btc'' @ ''_'' @ ''usd'') ''_'' =
     Inr \<lparr>Delimiter = ''_'', FirstCurrency = ''btc'', SecondCurrency = ''usd''\<rparr>"
    by blast
  ultimately show ?thesis by blast
qed

section \<open>Parsing without a given delimiter\<close>

lemma fromString_unfold:
  "NewCurrencyPairFromString raw =
     (if strings_Contains raw ''_'' then NewCurrencyPairDelimiter raw ''_''
      else if strings_Contains raw ''-'' then NewCurrencyPairDelimiter raw ''-''
      else if 3 \<le> length raw
           then Inr \<lparr>Delimiter = [], FirstCurrency = take 3 raw, SecondCurrency = drop 3 raw\<rparr>
           else Inl SliceBoundsOutOfRange)"
  by (simp add: NewCurrencyPairFromString_def slice_def slice_from_def NewCurrencyPair_def)

text \<open>
  C4. \<open>NewCurrencyPairFromString\<close> looks for \<open>_\<close> first and for \<open>-\<close> second; with
  the first of them that the raw string contains it returns what
  \<open>NewCurrencyPairDelimiter\<close> returns for that delimiter. With neither it returns the
  pair of \<open>raw[0:3]\<close> and \<open>raw[3:]\<close> with the empty delimiter; on a raw string shorter
  than three bytes the slice expression \<open>raw[0:3]\<close> is itself out of range.
  \<open>BTCUSD\<close> gives \<open>BTC\<close>, \<open>USD\<close> and no delimiter; \<open>btc_usd\<close> gives \<open>btc\<close>, \<open>usd\<close>
  and \<open>_\<close>.
\<close>

theorem fromString_cases:
  "NewCurrencyPairFromString raw =
     (if strings_Contains raw ''_'' then NewCurrencyPairDelimiter raw ''_''
      else if strings_Contains raw ''-'' then NewCurrencyPairDelimiter raw ''-''
      else if 3 \<le> length raw
           then Inr \<lparr>Delimiter = [], FirstCurrency = take 3 raw, SecondCurrency = drop 3 raw\<rparr>
           else Inl SliceBoundsOutOfRange) \<and>
   NewCurrencyPairFromString ''BTCUSD'' =
     Inr \<lparr>Delimiter = [], FirstCurrency = ''BTC'', SecondCurrency = ''USD''\<rparr> \<and>
   NewCurrencyPairFromString ''btc_usd'' =
     Inr \<lparr>Delimiter = ''_'', FirstCurrency = ''btc'', SecondCurrency = ''usd''\<rparr>"
proof (intro conjI)
  show "NewCurrencyPairFromString raw =
     (if strings_Contains raw ''_'' then NewCurrencyPairDelimiter raw ''_''
      else if strings_Contains raw ''-'' then NewCurrencyPairDelimiter raw ''-''
      else if 3 \<le> length raw
           then Inr \<lparr>Delimiter = [], FirstCurrency = take 3 raw, SecondCurrency = drop 3 raw\<rparr>
           else Inl SliceBoundsOutOfRange)"
    by (rule fromString_unfold)
  show "NewCurrencyPairFromString ''BTCUSD'' =
     Inr \<lparr>Delimiter = [], FirstCurrency = ''BTC'', SecondCurrency = ''USD''\<rparr>"
    by code_simp
  show "NewCurrencyPairFromString ''btc_usd'' =
     Inr \<lparr>Delimiter = ''_'', FirstCurrency = ''btc'', SecondCurrency = ''usd''\<rparr>"
    by code_simp
qed

theorem fromString_cases_witness:
  "NewCurrencyPairFromString ''eth-btc'' = NewCurrencyPairDelimiter ''eth-btc'' ''-'' \<and>
   NewCurrencyPairFromString ''LTCUSDT'' =
     Inr \<lparr>Delimiter = [], FirstCurrency = ''LTC'', SecondCurrency = ''USDT''\<rparr>"
proof -
  have a: "\<not> strings_Contains ''eth-btc'' ''_'' \<and> strings_Contains ''eth-btc'' ''-''"
    by code_simp
  have b: "\<not> strings_Contains ''LTCUSDT'' ''_'' \<and> \<not> strings_Contains ''LTCUSDT'' ''-''"
    by code_simp
  from fromString_cases [of "''eth-btc''"] a fromString_cases [of "''LTCUSDT''"] b
  show ?thesis by simp
qed




section \<open>Parsing at an index token\<close>

lemma fromIndex_at_start:
  assumes "strings_Index raw tok = 0"
  shows "NewCurrencyPairFromIndex raw tok =
     Inr \<lparr>Delimiter = [], FirstCurrency = tok, SecondCurrency = drop (length tok) raw\<rparr>"
proof -
  have nn: "0 \<le> strings_Index raw tok" using assms by simp
  from strings_Index_found [OF nn] assms have p: "prefix tok raw" by simp
  then have l: "length tok \<le> length raw" by (rule prefix_length_le)
  from p have t: "take (length tok) raw = tok" by (auto simp: prefix_def)
  from assms l t show ?thesis
    by (simp add: NewCurrencyPairFromIndex_def slice_def slice_from_def NewCurrencyPair_def)
qed

lemma fromIndex_later:
  assumes "0 < strings_Index raw tok"
  shows "NewCurrencyPairFromIndex raw tok =
     Inr \<lparr>Delimiter = [], FirstCurrency = take (nat (strings_Index raw tok)) raw,
          SecondCurrency = drop (nat (strings_Index raw tok)) raw\<rparr>"
proof -
  have "strings_Index raw tok \<le> int (length raw)"
    using strings_Index_range [of raw tok] by simp
  with assms show ?thesis
    by (simp add: NewCurrencyPairFromIndex_def slice_def slice_from_def NewCurrencyPair_def Let_def)
qed

lemma fromIndex_absent:
  assumes "\<not> strings_Contains raw tok"
  shows "strings_Index raw tok = - 1" and "NewCurrencyPairFromIndex raw tok = Inl SliceBoundsOutOfRange"
proof -
  show i: "strings_Index raw tok = - 1"
    using assms strings_Index_range [of raw tok] by (simp add: strings_Contains_def)
  then show "NewCurrencyPairFromIndex raw tok = Inl SliceBoundsOutOfRange"
    by (simp add: NewCurrencyPairFromIndex_def slice_def)
qed

text \<open>
  C5. For a token that occurs in the raw string, \<open>NewCurrencyPairFromIndex\<close> depends on
  where the first occurrence starts. At position 0 the first currency is the token and
  the second currency is what follows the token. At a later position the first currency
  is the text before the occurrence and the second currency is the text from the
  occurrence on, so it begins with the token.
\<close>

theorem fromIndex_asymmetric:
  "strings_Contains raw indexToken \<Longrightarrow>
   (strings_Index raw indexToken = 0 \<longrightarrow>
      NewCurrencyPairFromIndex raw indexToken =
        Inr \<lparr>Delimiter = [], FirstCurrency = indexToken,
             SecondCurrency = drop (length indexToken) raw\<rparr>) \<and>
   (strings_Index raw indexToken \<noteq> 0 \<longrightarrow>
      NewCurrencyPairFromIndex raw indexToken =
        Inr \<lparr>Delimiter = [], FirstCurrency = take (nat (strings_Index raw indexToken)) raw,
             SecondCurrency = drop (nat (strings_Index raw indexToken)) raw\<rparr> \<and>
      prefix indexToken (drop (nat (strings_Index raw indexToken)) raw))"
proof (intro conjI impI)
  assume "strings_Index raw indexToken = 0"
  then show "NewCurrencyPairFromIndex raw indexToken =
        Inr \<lparr>Delimiter = [], FirstCurrency = indexToken,
             SecondCurrency = drop (length indexToken) raw\<rparr>"
    by (rule fromIndex_at_start)
next
  assume c: "strings_Contains raw indexToken" and "strings_Index raw indexToken \<noteq> 0"
  then have "0 < strings_Index raw indexToken" by (simp add: strings_Contains_def)
  then show "NewCurrencyPairFromIndex raw indexToken =
        Inr \<lparr>Delimiter = [], FirstCurrency = take (nat (strings_Index raw indexToken)) raw,
             SecondCurrency = drop (nat (strings_Index raw indexToken)) raw\<rparr>"
    by (rule fromIndex_later)
  from c show "prefix indexToken (drop (nat (strings_Index raw indexToken)) raw)"
    by (simp add: strings_Contains_def strings_Index_found)
qed

theorem fromIndex_asymmetric_witness:
  "NewCurrencyPairFromIndex ''BTCUSD'' ''BTC'' =
     Inr \<lparr>Delimiter = [], FirstCurrency = ''BTC'', SecondCurrency = ''USD''\<rparr> \<and>
   NewCurrencyPairFromIndex ''XBTCUSD'' ''BTC'' =
     Inr \<lparr>Delimiter = [], FirstCurrency = ''X'', SecondCurrency = ''BTCUSD''\<rparr>"
proof -
  have c1: "strings_Contains ''BTCUSD'' ''BTC''" by code_simp
  have i1: "strings_Index ''BTCUSD'' ''BTC'' = 0" by code_simp
  have c2: "strings_Contains ''XBTCUSD'' ''BTC''" by code_simp
  have i2: "strings_Index ''XBTCUSD'' ''BTC'' = 1" by code_simp
  from fromIndex_asymmetric [OF c1] i1 fromIndex_asymmetric [OF c2] i2
  show ?thesis by simp
qed

text \<open>
  C9. \<open>NewCurrencyPairFromIndex\<close> returns a pair only when the token occurs. When it
  does not, \<open>strings.Index\<close> is \<open>-1\<close>, the slice \<open>raw[0:-1]\<close> is out of range and the
  function panics; it fails in this case and in no other.
\<close>

theorem fromIndex_partial:
  "(\<not> strings_Contains raw indexToken \<longrightarrow>
      strings_Index raw indexToken = - 1 \<and>
      slice raw 0 (strings_Index raw indexToken) = Inl SliceBoundsOutOfRange \<and>
      NewCurrencyPairFromIndex raw indexToken = Inl SliceBoundsOutOfRange) \<and>
   ((\<exists>e. NewCurrencyPairFromIndex raw indexToken = Inl e) \<longleftrightarrow>
      \<not> strings_Contains raw indexToken)"
proof -
  have ok: "\<exists>p. NewCurrencyPairFromIndex raw indexToken = Inr p" if "strings_Contains raw indexToken"
  proof (cases "strings_Index raw indexToken = 0")
    case True
    then show ?thesis by (simp add: fromIndex_at_start)
  next
    case False
    with that have "0 < strings_Index raw indexToken" by (simp add: strings_Contains_def)
    then show ?thesis by (simp add: fromIndex_later)
  qed
  have bad: "strings_Index raw indexToken = - 1 \<and>
      slice raw 0 (strings_Index raw indexToken) = Inl SliceBoundsOutOfRange \<and>
      NewCurrencyPairFromIndex raw indexToken = Inl SliceBoundsOutOfRange"
    if "\<not> strings_Contains raw indexToken"
    using fromIndex_absent [OF that] by (simp add: slice_def)
  from ok bad show ?thesis by auto
qed

theorem fromIndex_partial_witness:
  "NewCurrencyPairFromIndex ''BTCUSD'' ''ETH'' = Inl SliceBoundsOutOfRange \<and>
   (\<exists>e. NewCurrencyPairFromIndex ''BTCUSD'' ''ETH'' = Inl e) \<and>
   \<not> (\<exists>e. NewCurrencyPairFromIndex ''BTCUSD'' ''USD'' = Inl e)"
proof -
  have a: "\<not> strings_Contains ''BTCUSD'' ''ETH''" by code_simp
  have b: "strings_Contains ''BTCUSD'' ''USD''" by code_simp
  from fromIndex_partial [of "''BTCUSD''" "''ETH''"] a
       fromIndex_partial [of "''BTCUSD''" "''USD''"] b
  show ?thesis by blast
qed

section \<open>Comparison\<close>

text \<open>
  The comparison theorems use nothing about \<open>strings.ToUpper\<close> but that it is a
  function, so they hold for the full Unicode upper-casing as well.

  C6. \<open>Equal\<close> is reflexive and symmetric in both modes, a pair equals its \<open>Swap\<close> in
  the mode that is not exact, and the delimiters of the two pairs do not matter.
\<close>

theorem Equal_reflexive_symmetric:
  "Equal a a exact \<and>
   Equal a b exact = Equal b a exact \<and>
   Equal p (Swap p) False \<and>
   Equal (a\<lparr>Delimiter := d\<rparr>) (b\<lparr>Delimiter := d'\<rparr>) exact = Equal a b exact"
proof (intro conjI)
  show "Equal a a exact" by (simp add: Equal_def)
  show "Equal a b exact = Equal b a exact" by (auto simp: Equal_def)
  show "Equal p (Swap p) False" by (simp add: Equal_def Swap_def)
  show "Equal (a\<lparr>Delimiter := d\<rparr>) (b\<lparr>Delimiter := d'\<rparr>) exact = Equal a b exact"
    by (simp add: Equal_def)
qed

theorem Equal_reflexive_symmetric_witness:
  "Equal \<lparr>Delimiter = ''-'', FirstCurrency = ''btc'', SecondCurrency = ''USD''\<rparr>
         (Swap \<lparr>Delimiter = ''-'', FirstCurrency = ''btc'', SecondCurrency = ''USD''\<rparr>) False \<and>
   Equal \<lparr>Delimiter = ''_'', FirstCurrency = ''btc'', SecondCurrency = ''usd''\<rparr>
         \<lparr>Delimiter = [], FirstCurrency = ''USD'', SecondCurrency = ''BTC''\<rparr> True =
   Equal \<lparr>Delimiter = [], FirstCurrency = ''USD'', SecondCurrency = ''BTC''\<rparr>
         \<lparr>Delimiter = ''_'', FirstCurrency = ''btc'', SecondCurrency = ''usd''\<rparr> True"
  using Equal_reflexive_symmetric
    [of "\<lparr>Delimiter = ''_'', FirstCurrency = ''btc'', SecondCurrency = ''usd''\<rparr>" True
        "\<lparr>Delimiter = [], FirstCurrency = ''USD'', SecondCurrency = ''BTC''\<rparr>"
        "\<lparr>Delimiter = ''-'', FirstCurrency = ''btc'', SecondCurrency = ''USD''\<rparr>"]
  by blast

text \<open>
  C10. Two pairs that are equal in the exact mode are equal in the mode that is not
  exact.
\<close>

theorem Equal_exact_imp_inexact:
  "Equal a b True \<Longrightarrow> Equal a b False"
  by (simp add: Equal_def split: if_splits)

theorem Equal_exact_imp_inexact_witness:
  "Equal \<lparr>Delimiter = ''_'', FirstCurrency = ''btc'', SecondCurrency = ''usd''\<rparr>
         \<lparr>Delimiter = [], FirstCurrency = ''BTC'', SecondCurrency = ''USD''\<rparr> True \<and>
   Equal \<lparr>Delimiter = ''_'', FirstCurrency = ''btc'', SecondCurrency = ''usd''\<rparr>
         \<lparr>Delimiter = [], FirstCurrency = ''BTC'', SecondCurrency = ''USD''\<rparr> False"
proof -
  have h: "Equal \<lparr>Delimiter = ''_'', FirstCurrency = ''btc'', SecondCurrency = ''usd''\<rparr>
         \<lparr>Delimiter = [], FirstCurrency = ''BTC'', SecondCurrency = ''USD''\<rparr> True"
    by code_simp
  from h Equal_exact_imp_inexact [OF h] show ?thesis by simp
qed

section \<open>Lists of pairs\<close>

text \<open>
  C7. \<open>CopyPairFormat\<close> returns the first element of the list that the target equals in
  the given mode: the element \<open>q\<close> of \<open>before @ q # after\<close> when no element of
  \<open>before\<close> matches and \<open>q\<close> does. When no element matches it returns the zero value,
  a pair of empty legs with the empty delimiter, and no failure.
\<close>

theorem CopyPairFormat_first_match:
  "((\<forall>q \<in> set pairs. \<not> Equal p q exact) \<longrightarrow>
      CopyPairFormat p pairs exact =
        \<lparr>Delimiter = [], FirstCurrency = [], SecondCurrency = []\<rparr>) \<and>
   ((\<forall>x \<in> set before. \<not> Equal p x exact) \<and> Equal p q exact \<longrightarrow>
      CopyPairFormat p (before @ q # after) exact = q)"
proof (intro conjI impI)
  assume "\<forall>q \<in> set pairs. \<not> Equal p q exact"
  then show "CopyPairFormat p pairs exact =
        \<lparr>Delimiter = [], FirstCurrency = [], SecondCurrency = []\<rparr>"
    by (induction pairs) (simp_all add: zero_CurrencyPair_def)
next
  assume "(\<forall>x \<in> set before. \<not> Equal p x exact) \<and> Equal p q exact"
  then show "CopyPairFormat p (before @ q # after) exact = q"
    by (induction before) simp_all
qed

theorem CopyPairFormat_first_match_witness:
  "CopyPairFormat \<lparr>Delimiter = [], FirstCurrency = ''btc'', SecondCurrency = ''usd''\<rparr>
     [\<lparr>Delimiter = ''-'', FirstCurrency = ''ETH'', SecondCurrency = ''USD''\<rparr>] True =
     \<lparr>Delimiter = [], FirstCurrency = [], SecondCurrency = []\<rparr> \<and>
   CopyPairFormat \<lparr>Delimiter = [], FirstCurrency = ''btc'', SecondCurrency = ''usd''\<rparr>
     ([\<lparr>Delimiter = ''-'', FirstCurrency = ''ETH'', SecondCurrency = ''USD''\<rparr>] @
      \<lparr>Delimiter = ''-'', FirstCurrency = ''BTC'', SecondCurrency = ''USD''\<rparr> #
      [\<lparr>Delimiter = ''_'', FirstCurrency = ''BTC'', SecondCurrency = ''USD''\<rparr>]) True =
     \<lparr>Delimiter = ''-'', FirstCurrency = ''BTC'', SecondCurrency = ''USD''\<rparr>"
proof -
  let ?p = "\<lparr>Delimiter = [], FirstCurrency = ''btc'', SecondCurrency = ''usd''\<rparr>"
  let ?e = "\<lparr>Delimiter = ''-'', FirstCurrency = ''ETH'', SecondCurrency = ''USD''\<rparr>"
  let ?q = "\<lparr>Delimiter = ''-'', FirstCurrency = ''BTC'', SecondCurrency = ''USD''\<rparr>"
  let ?r = "\<lparr>Delimiter = ''_'', FirstCurrency = ''BTC'', SecondCurrency = ''USD''\<rparr>"
  have n: "\<not> Equal ?p ?e True" by code_simp
  have y: "Equal ?p ?q True" by code_simp
  have h1: "\<forall>q \<in> set [?e]. \<not> Equal ?p q True" using n by simp
  have h2: "(\<forall>x \<in> set [?e]. \<not> Equal ?p x True) \<and> Equal ?p ?q True" using n y by simp
  from CopyPairFormat_first_match [of "[?e]" ?p True "[?e]" ?q "[?r]"] h1 h2
  show ?thesis by blast
qed

lemma RemovePairsByFilter_loop_filter:
  "RemovePairsByFilter_loop p code pairs =
     pairs @ filter (\<lambda>q. \<not> ContainsCurrency q code) p"
  by (induction p arbitrary: pairs) simp_all

text \<open>
  C8. \<open>RemovePairsByFilter\<close> keeps exactly the elements for which \<open>ContainsCurrency\<close>
  with the filter code is false, in their order in the input: the result is a
  subsequence of the input and never longer than it.
\<close>

theorem RemovePairsByFilter_filter:
  "RemovePairsByFilter pairs code = filter (\<lambda>q. \<not> ContainsCurrency q code) pairs \<and>
   subseq (RemovePairsByFilter pairs code) pairs \<and>
   length (RemovePairsByFilter pairs code) \<le> length pairs"
  by (simp add: RemovePairsByFilter_def RemovePairsByFilter_loop_filter)

theorem RemovePairsByFilter_filter_witness:
  "RemovePairsByFilter
     [\<lparr>Delimiter = ''-'', FirstCurrency = ''ETH'', SecondCurrency = ''USD''\<rparr>,
      \<lparr>Delimiter = ''-'', FirstCurrency = ''BTC'', SecondCurrency = ''LTC''\<rparr>,
      \<lparr>Delimiter = ''_'', FirstCurrency = ''usd'', SecondCurrency = ''XRP''\<rparr>,
      \<lparr>Delimiter = [], FirstCurrency = ''LTC'', SecondCurrency = ''ETH''\<rparr>] ''Usd'' =
     [\<lparr>Delimiter = ''-'', FirstCurrency = ''BTC'', SecondCurrency = ''LTC''\<rparr>,
      \<lparr>Delimiter = [], FirstCurrency = ''LTC'', SecondCurrency = ''ETH''\<rparr>]"
proof -
  let ?ps = "[\<lparr>Delimiter = ''-'', FirstCurrency = ''ETH'', SecondCurrency = ''USD''\<rparr>,
      \<lparr>Delimiter = ''-'', FirstCurrency = ''BTC'', SecondCurrency = ''LTC''\<rparr>,
      \<lparr>Delimiter = ''_'', FirstCurrency = ''usd'', SecondCurrency = ''XRP''\<rparr>,
      \<lparr>Delimiter = [], FirstCurrency = ''LTC'', SecondCurrency = ''ETH''\<rparr>]"
  have "filter (\<lambda>q. \<not> ContainsCurrency q ''Usd'') ?ps =
     [\<lparr>Delimiter = ''-'', FirstCurrency = ''BTC'', SecondCurrency = ''LTC''\<rparr>,
      \<lparr>Delimiter = [], FirstCurrency = ''LTC'', SecondCurrency = ''ETH''\<rparr>]"
    by code_simp
  with RemovePairsByFilter_filter [of ?ps "''Usd''"] show ?thesis by simp
qed

end
